theory Spec2Isabelle
  imports Complex_Main
begin

section \<open>Data model\<close>

text \<open>
  The book catalogue backend: the routes of \<^verbatim>\<open>routes/auth.js\<close> and
  \<^verbatim>\<open>routes/books.js\<close>, the middleware \<^verbatim>\<open>middleware/auth.js\<close> and
  \<^verbatim>\<open>utils/imageProcessor.js\<close>. JavaScript numbers are modelled as rationals
  (exact arithmetic), identifiers as strings. The French response messages are a datatype,
  one constructor per message of the source.
\<close>

type_synonym user_id = string
type_synonym book_id = string

text \<open>
  Modelled from the spec: the Mongoose schemas \<^verbatim>\<open>models/book.js\<close> and
  \<^verbatim>\<open>models/user.js\<close> are not among the sources. The fields are those the routes
  read and write and the spec's data model lists; \<open>b_id\<close> and \<open>u_id\<close> are the
  documents' \<^verbatim>\<open>_id\<close>.
\<close>

record rating_entry =
  r_userId :: user_id
  grade :: rat

record book =
  b_id :: book_id
  userId :: user_id
  title :: string
  author :: string
  genre :: string
  year :: int
  imageUrl :: string
  averageRating :: rat
  ratings :: "rating_entry list"

record user =
  u_id :: user_id
  email :: string
  password :: string

text \<open>
  A signed token: the payload \<^verbatim>\<open>{ userId }\<close>, the secret it was signed with, and the
  issue and expiry times in seconds (the \<^verbatim>\<open>iat\<close> and \<^verbatim>\<open>exp\<close> claims that
  \<^verbatim>\<open>jwt.sign\<close> adds for \<^verbatim>\<open>expiresIn\<close>).
\<close>

record token =
  t_userId :: user_id
  t_secret :: string
  t_iat :: nat
  t_exp :: nat

datatype msg =
    UserNotFound          \<comment> \<open>"User not found!"\<close>
  | IncorrectPassword     \<comment> \<open>"Incorrect password!"\<close>
  | UnauthorizedRequest   \<comment> \<open>"Unauthorized request!"\<close>
  | InvalidBookJson       \<comment> \<open>"Les details du livre doivent etre un JSON valide."\<close>
  | BookCreated           \<comment> \<open>"Livre cree avec succes !"\<close>
  | BookNotFound          \<comment> \<open>"Livre non trouve !"\<close>
  | UpdateRefused         \<comment> \<open>"Requete non autorisee ou aucune modification detectee."\<close>
  | BookUpdated           \<comment> \<open>"Livre mis a jour avec succes !"\<close>
  | DeleteRefused         \<comment> \<open>"Requete non autorisee ou livre non trouve."\<close>
  | BookDeleted           \<comment> \<open>"Livre et image supprimes avec succes !"\<close>
  | RatingOutOfRange      \<comment> \<open>"La note doit etre comprise entre 0 et 5."\<close>
  | AlreadyRated          \<comment> \<open>"Vous avez deja note ce livre."\<close>

datatype body =
    Message msg                 \<comment> \<open>\<^verbatim>\<open>{ message }\<close>\<close>
  | ErrorJson                   \<comment> \<open>\<^verbatim>\<open>{ error }\<close>\<close>
  | BookJson book
  | BooksJson "book list"
  | LoginJson user_id token     \<comment> \<open>\<^verbatim>\<open>{ userId, token }\<close>\<close>

record response =
  status :: nat
  body :: body

definition respond :: "nat \<Rightarrow> body \<Rightarrow> response" where
  "respond c b = \<lparr>status = c, body = b\<rparr>"

datatype log_entry =
    ImageCompressError    \<comment> \<open>"Erreur lors de la compression de l'image :"\<close>
  | ImageDeleteError      \<comment> \<open>"Erreur lors de la suppression de l'image :"\<close>
  | BookDeleteError       \<comment> \<open>"Erreur lors de la suppression du livre :"\<close>
  | UpdateParseError      \<comment> \<open>\<^verbatim>\<open>console.log(err)\<close> of the update route\<close>

text \<open>
  The state the routes act on: the book collection (in the store's native order), the
  regular files on disk, each by its absolute normalised path, and what was written to the
  console; with them the two directories the process knows, its working directory
  (against which a relative path is resolved) and \<^verbatim>\<open>__dirname\<close> of the routes
  module, both absolute paths.
\<close>

record state =
  books :: "book list"
  files :: "string set"
  console :: "log_entry list"
  cwd :: string
  dirname :: string

section \<open>The error taxonomy of the specification\<close>

datatype error_kind =
  ValidationError | UnauthorizedError | ForbiddenError | NotFoundError

text \<open>
  The spec's mapping of error kinds to status codes, read backwards: 400 is a
  \<open>ValidationError\<close>, 401 an \<open>UnauthorizedError\<close>, 403 a \<open>ForbiddenError\<close>,
  404 a \<open>NotFoundError\<close>. This definition follows the spec's section on error handling,
  not the source.
\<close>

definition spec_error_kind :: "response \<Rightarrow> error_kind option" where
  "spec_error_kind r =
     (if status r = 400 then Some ValidationError
      else if status r = 401 then Some UnauthorizedError
      else if status r = 403 then Some ForbiddenError
      else if status r = 404 then Some NotFoundError
      else None)"

section \<open>Authentication\<close>

definition SECRET :: string where
  "SECRET = ''RANDOM_TOKEN_SECRET''"

text \<open>\<^verbatim>\<open>jwt.sign(payload, secret, { expiresIn })\<close> at time \<open>now\<close> (seconds).\<close>

definition jwt_sign :: "user_id \<Rightarrow> string \<Rightarrow> nat \<Rightarrow> nat \<Rightarrow> token" where
  "jwt_sign uid secret expiresIn now =
     \<lparr>t_userId = uid, t_secret = secret, t_iat = now, t_exp = now + expiresIn\<rparr>"

text \<open>
  \<^verbatim>\<open>jwt.verify(token, secret)\<close>: the payload when the signature matches and the token
  has not expired, \<open>None\<close> when it throws.
\<close>

definition jwt_verify :: "token \<Rightarrow> string \<Rightarrow> nat \<Rightarrow> user_id option" where
  "jwt_verify t secret now =
     (if t_secret t = secret \<and> now < t_exp t then Some (t_userId t) else None)"

text \<open>
  The middleware \<^verbatim>\<open>auth\<close>. The header is \<open>None\<close> when it is missing or carries no
  decodable token after \<^verbatim>\<open>Bearer\<close>; every exception ends in status 401.
\<close>

definition auth :: "nat \<Rightarrow> token option \<Rightarrow> response + user_id" where
  "auth now authorization =
     (case authorization of
        None \<Rightarrow> Inl (respond 401 (Message UnauthorizedRequest))
      | Some t \<Rightarrow>
          (case jwt_verify t SECRET now of
             None \<Rightarrow> Inl (respond 401 (Message UnauthorizedRequest))
           | Some uid \<Rightarrow> Inr uid))"

definition findOne_user :: "string \<Rightarrow> user list \<Rightarrow> user option" where
  "findOne_user e us = find (\<lambda>u. email u = e) us"

text \<open>
  \<^verbatim>\<open>router.post("/login")\<close>. \<open>compare\<close> is \<^verbatim>\<open>bcrypt.compare\<close>. The route has
  no \<^verbatim>\<open>catch\<close>: when a promise of the chain rejects (\<open>rejects\<close>) no response is
  sent, which is the value \<open>None\<close>.
\<close>

definition login ::
  "(string \<Rightarrow> string \<Rightarrow> bool) \<Rightarrow> bool \<Rightarrow> nat \<Rightarrow> user list \<Rightarrow> string \<Rightarrow> string
     \<Rightarrow> response option" where
  "login compare rejects now us em pw =
     (if rejects then None
      else
        (case findOne_user em us of
           None \<Rightarrow> Some (respond 401 (Message UserNotFound))
         | Some u \<Rightarrow>
             if \<not> compare pw (password u)
             then Some (respond 401 (Message IncorrectPassword))
             else Some (respond 200
                    (LoginJson (u_id u) (jwt_sign (u_id u) SECRET (24 * 3600) now)))))"

section \<open>The book collection\<close>

text \<open>\<^verbatim>\<open>Book.findOne({ _id })\<close> and \<^verbatim>\<open>Book.findOne({ _id, userId })\<close>.\<close>

definition findOne :: "book_id \<Rightarrow> book list \<Rightarrow> book option" where
  "findOne i bs = find (\<lambda>b. b_id b = i) bs"

definition findOne_owned :: "book_id \<Rightarrow> user_id \<Rightarrow> book list \<Rightarrow> book option" where
  "findOne_owned i u bs = find (\<lambda>b. b_id b = i \<and> userId b = u) bs"

text \<open>\<^verbatim>\<open>Book.deleteOne({ _id })\<close>: the first matching document is removed.\<close>

fun deleteOne :: "book_id \<Rightarrow> book list \<Rightarrow> book list" where
  "deleteOne i [] = []"
| "deleteOne i (b # bs) = (if b_id b = i then bs else b # deleteOne i bs)"

text \<open>
  \<^verbatim>\<open>book.save()\<close> of a document read from the collection: the stored document with
  that \<^verbatim>\<open>_id\<close> is replaced.
\<close>

fun save :: "book \<Rightarrow> book list \<Rightarrow> book list" where
  "save b' [] = []"
| "save b' (b # bs) = (if b_id b = b_id b' then b' # bs else b # save b' bs)"

text \<open>
  \<^verbatim>\<open>book.save()\<close> of a new document: it is appended; the unique index on
  \<^verbatim>\<open>_id\<close> rejects a duplicate.
\<close>

definition insert_new :: "book \<Rightarrow> book list \<Rightarrow> book list option" where
  "insert_new b bs = (if b_id b \<in> set (map b_id bs) then None else Some (bs @ [b]))"

text \<open>
  The update document of \<^verbatim>\<open>Book.updateOne\<close>: the fields of the schema that the
  supplied object carries (Mongoose drops the others). It is whatever the client sent, so
  every field of the schema may appear.
\<close>

record book_update =
  set_userId :: "user_id option"
  set_title :: "string option"
  set_author :: "string option"
  set_genre :: "string option"
  set_year :: "int option"
  set_imageUrl :: "string option"
  set_averageRating :: "rat option"
  set_ratings :: "rating_entry list option"

definition no_update :: book_update where
  "no_update = \<lparr>set_userId = None, set_title = None, set_author = None, set_genre = None,
     set_year = None, set_imageUrl = None, set_averageRating = None, set_ratings = None\<rparr>"

definition apply_update :: "book_update \<Rightarrow> book \<Rightarrow> book" where
  "apply_update d b =
     b\<lparr>userId := (case set_userId d of None \<Rightarrow> userId b | Some v \<Rightarrow> v),
       title := (case set_title d of None \<Rightarrow> title b | Some v \<Rightarrow> v),
       author := (case set_author d of None \<Rightarrow> author b | Some v \<Rightarrow> v),
       genre := (case set_genre d of None \<Rightarrow> genre b | Some v \<Rightarrow> v),
       year := (case set_year d of None \<Rightarrow> year b | Some v \<Rightarrow> v),
       imageUrl := (case set_imageUrl d of None \<Rightarrow> imageUrl b | Some v \<Rightarrow> v),
       averageRating := (case set_averageRating d of None \<Rightarrow> averageRating b | Some v \<Rightarrow> v),
       ratings := (case set_ratings d of None \<Rightarrow> ratings b | Some v \<Rightarrow> v)\<rparr>"

text \<open>
  \<^verbatim>\<open>Book.updateOne({ _id, userId }, doc)\<close>: the first document matching both fields
  is updated. The second component is \<^verbatim>\<open>result.nModified\<close>, the number of documents
  the update changed: 0 when nothing matches and also when the matching document already
  has the supplied values.
\<close>

fun updateOne :: "book_id \<Rightarrow> user_id \<Rightarrow> book_update \<Rightarrow> book list \<Rightarrow> book list \<times> nat" where
  "updateOne i u d [] = ([], 0)"
| "updateOne i u d (b # bs) =
     (if b_id b = i \<and> userId b = u
      then (apply_update d b # bs, if apply_update d b = b then 0 else 1)
      else (b # fst (updateOne i u d bs), snd (updateOne i u d bs)))"

text \<open>\<^verbatim>\<open>Book.find().sort({ averageRating: -1 }).limit(n)\<close>.\<close>

definition topRated :: "nat \<Rightarrow> book list \<Rightarrow> book list" where
  "topRated n bs = take n (sort_key (\<lambda>b. - averageRating b) bs)"

section \<open>Image files\<close>

text \<open>
  What the routes need of a request beyond its body: \<^verbatim>\<open>Date.now()\<close> as the decimal
  text it is interpolated as, \<^verbatim>\<open>req.protocol\<close> and \<^verbatim>\<open>req.get("host")\<close>, and
  the \<^verbatim>\<open>_id\<close> that \<^verbatim>\<open>new Book\<close> generates.
\<close>

record env =
  now :: string
  protocol :: string
  host :: string
  new_id :: book_id

text \<open>
  The file of a multipart request (\<^verbatim>\<open>req.file\<close>): its name, and whether the awaited
  \<^verbatim>\<open>sharp(fileBuffer)...toFile(outputFilePath)\<close> succeeds for it (the buffer is
  decoded and converted and the file is written).
\<close>

record upload =
  originalname :: string
  processable :: bool

text \<open>
  \<^verbatim>\<open>s.split(sep)\<close> of JavaScript for a separator that is not empty (the routes split
  at \<^verbatim>\<open>"/images/"\<close> only).
\<close>

function split_js :: "string \<Rightarrow> string \<Rightarrow> string list" where
  "split_js sep [] = [[]]"
| "split_js sep (c # cs) =
     (if sep \<noteq> [] \<and> take (length sep) (c # cs) = sep
      then [] # split_js sep (drop (length sep) (c # cs))
      else (case split_js sep cs of [] \<Rightarrow> [[c]] | w # ws \<Rightarrow> (c # w) # ws))"
  by pat_completeness auto
termination
  by (relation "measure (\<lambda>(sep, s). length s)") auto

text \<open>
  \<^verbatim>\<open>path.join\<close> and \<^verbatim>\<open>path.normalize\<close> of Node on POSIX. \<open>normalizeString\<close>
  walks the segments between slashes: an empty segment and \<^verbatim>\<open>.\<close> are dropped,
  \<^verbatim>\<open>..\<close> removes the segment before it; at the start of a relative path
  (\<open>allowAboveRoot\<close>) it is kept, at the root of an absolute path it is dropped. \<open>res\<close>
  holds the segments kept so far, the last one first.
\<close>

fun normalizeString :: "bool \<Rightarrow> string list \<Rightarrow> string list \<Rightarrow> string list" where
  "normalizeString allowAboveRoot res [] = rev res"
| "normalizeString allowAboveRoot res (s # ss) =
     (if s = [] \<or> s = ''.'' then normalizeString allowAboveRoot res ss
      else if s = ''..'' then
        (case res of
           [] \<Rightarrow> normalizeString allowAboveRoot (if allowAboveRoot then [''..''] else []) ss
         | r # rs \<Rightarrow>
             if r = ''..'' then normalizeString allowAboveRoot (''..'' # res) ss
             else normalizeString allowAboveRoot rs ss)
      else normalizeString allowAboveRoot (s # res) ss)"

text \<open>\<^verbatim>\<open>segments.join(sep)\<close>\<close>

fun join_with :: "string \<Rightarrow> string list \<Rightarrow> string" where
  "join_with sep [] = []"
| "join_with sep [x] = x"
| "join_with sep (x # y # ys) = x @ sep @ join_with sep (y # ys)"

definition path_normalize :: "string \<Rightarrow> string" where
  "path_normalize p =
     (if p = [] then ''.''
      else
        (case join_with ''/'' (normalizeString (hd p \<noteq> CHR ''/'') [] (split_js ''/'' p)) of
           q \<Rightarrow>
             if q = []
             then (if hd p = CHR ''/'' then ''/''
                   else if last p = CHR ''/'' then ''./'' else ''.'')
             else (if hd p = CHR ''/'' then ''/'' else []) @ q @
                  (if last p = CHR ''/'' then ''/'' else [])))"

definition path_join :: "string list \<Rightarrow> string" where
  "path_join args =
     (case join_with ''/'' (filter (\<lambda>arg. arg \<noteq> []) args) of
        joined \<Rightarrow> if joined = [] then ''.'' else path_normalize joined)"

text \<open>
  \<^verbatim>\<open>compressImage(fileBuffer, filename)\<close>: the converted image is written to
  \<^verbatim>\<open>path.join("images", filename)\<close>, a relative path that the system resolves against
  the working directory, and that relative path is returned; a failure is logged and
  thrown again (\<open>None\<close>).
\<close>

definition compressImage :: "upload \<Rightarrow> string \<Rightarrow> state \<Rightarrow> state \<times> string option" where
  "compressImage f filename st =
     (case path_join [''images'', filename] of
        outputFilePath \<Rightarrow>
          if processable f
          then (st\<lparr>files := insert (path_join [cwd st, outputFilePath]) (files st)\<rparr>,
                Some outputFilePath)
          else (st\<lparr>console := console st @ [ImageCompressError]\<rparr>, None))"

text \<open>
  The steps shared by the create and the update route: the file name
  \<^verbatim>\<open>`${Date.now()}-${req.file.originalname}`\<close>, the compression, and the URL
  \<^verbatim>\<open>`${req.protocol}://${req.get("host")}/${imagePath}`\<close>.
\<close>

definition store_image :: "env \<Rightarrow> upload \<Rightarrow> state \<Rightarrow> state \<times> string option" where
  "store_image e f st =
     (case compressImage f (now e @ ''-'' @ originalname f) st of
        (st', None) \<Rightarrow> (st', None)
      | (st', Some imagePath) \<Rightarrow> (st', Some (protocol e @ ''://'' @ host e @ ''/'' @ imagePath)))"

text \<open>
  \<^verbatim>\<open>book.imageUrl ? book.imageUrl.split("/images/")[1] : null\<close>; \<open>None\<close> stands
  for \<^verbatim>\<open>null\<close> and \<^verbatim>\<open>undefined\<close>.
\<close>

definition image_filename :: "book \<Rightarrow> string option" where
  "image_filename b =
     (if imageUrl b = [] then None
      else (case split_js ''/images/'' (imageUrl b) of
              w # f # ws \<Rightarrow> Some f
            | _ \<Rightarrow> None))"

text \<open>
  The path that the delete route removes:
  \<^verbatim>\<open>path.join(__dirname, "..", "images", filename)\<close>.
\<close>

definition image_path :: "state \<Rightarrow> string \<Rightarrow> string" where
  "image_path st filename = path_join [dirname st, ''..'', ''images'', filename]"

text \<open>
  \<^verbatim>\<open>fs.unlink(imagePath, callback)\<close> with the callback of the delete route: the file
  at that path is removed, or the callback logs the error (no regular file has that path,
  or the file system refuses: \<open>fs_fails\<close>). Nothing is thrown. A path that ends in a
  slash is the path of no regular file.
\<close>

definition unlink :: "bool \<Rightarrow> string \<Rightarrow> state \<Rightarrow> state" where
  "unlink fs_fails imagePath st =
     (if imagePath \<in> files st \<and> last imagePath \<noteq> CHR ''/'' \<and> \<not> fs_fails
      then st\<lparr>files := files st - {imagePath}\<rparr>
      else st\<lparr>console := console st @ [ImageDeleteError]\<rparr>)"

section \<open>The book routes\<close>

text \<open>
  Each route takes the identity that \<open>auth\<close> put into \<^verbatim>\<open>req.userData.userId\<close>
  where the route is protected, and returns the new state and the response. A Boolean
  \<open>..._rejects\<close> says that the store rejects the promise of that call, which the
  routes catch.
\<close>

text \<open>\<^verbatim>\<open>router.get("/")\<close>\<close>

definition get_books :: "bool \<Rightarrow> state \<Rightarrow> response" where
  "get_books find_rejects st =
     (if find_rejects then respond 400 ErrorJson else respond 200 (BooksJson (books st)))"

text \<open>\<^verbatim>\<open>router.get("/bestrating")\<close>\<close>

definition get_bestrating :: "bool \<Rightarrow> state \<Rightarrow> response" where
  "get_bestrating find_rejects st =
     (if find_rejects then respond 400 ErrorJson
      else respond 200 (BooksJson (topRated 3 (books st))))"


text \<open>
  \<^verbatim>\<open>router.post("/")\<close>. \<open>c_book\<close> is \<^verbatim>\<open>JSON.parse(req.body.book)\<close>, \<open>None\<close>
  when it throws; the route reads the four fields below from it.
\<close>

record book_details =
  d_title :: string
  d_author :: string
  d_genre :: string
  d_year :: int

record create_request =
  c_book :: "book_details option"
  c_file :: "upload option"

definition post_book ::
  "env \<Rightarrow> bool \<Rightarrow> user_id \<Rightarrow> create_request \<Rightarrow> state \<Rightarrow> state \<times> response" where
  "post_book e save_rejects uid rq st =
     (case c_book rq of
        None \<Rightarrow> (st, respond 400 (Message InvalidBookJson))
      | Some bookDetails \<Rightarrow>
          (case (case c_file rq of
                   None \<Rightarrow> (st, Some [])
                 | Some f \<Rightarrow> store_image e f st) of
             (st1, None) \<Rightarrow> (st1, respond 400 ErrorJson)
           | (st1, Some url) \<Rightarrow>
               (case (if save_rejects then None
                      else insert_new
                        \<lparr>b_id = new_id e, userId = uid, title = d_title bookDetails,
                          author = d_author bookDetails, genre = d_genre bookDetails,
                          year = d_year bookDetails, imageUrl = url,
                          averageRating = 0, ratings = []\<rparr> (books st1)) of
                  None \<Rightarrow> (st1, respond 400 ErrorJson)
                | Some bs \<Rightarrow> (st1\<lparr>books := bs\<rparr>, respond 201 (Message BookCreated)))))"

text \<open>
  \<^verbatim>\<open>router.put("/:id")\<close>. \<open>p_book\<close> is \<^verbatim>\<open>JSON.parse(req.body.book)\<close> read as an
  update document, \<open>None\<close> when it throws; \<open>p_body\<close> is \<^verbatim>\<open>req.body\<close> read as an
  update document. A parsed value that is not an object spreads to no field and is the
  document \<open>no_update\<close>.
\<close>

record update_request =
  p_book :: "book_update option"
  p_body :: book_update
  p_file :: "upload option"

text \<open>The answer to \<^verbatim>\<open>Book.updateOne\<close>: the \<^verbatim>\<open>then\<close> and \<^verbatim>\<open>catch\<close> of the route.\<close>

definition update_with ::
  "bool \<Rightarrow> user_id \<Rightarrow> book_id \<Rightarrow> book_update \<Rightarrow> state \<Rightarrow> state \<times> response" where
  "update_with update_rejects uid bookId bookData st =
     (if update_rejects then (st, respond 400 ErrorJson)
      else (case updateOne bookId uid bookData (books st) of
              (bs, nModified) \<Rightarrow>
                if nModified = 0
                then (st\<lparr>books := bs\<rparr>, respond 403 (Message UpdateRefused))
                else (st\<lparr>books := bs\<rparr>, respond 200 (Message BookUpdated))))"

definition put_book ::
  "env \<Rightarrow> bool \<Rightarrow> user_id \<Rightarrow> book_id \<Rightarrow> update_request \<Rightarrow> state \<Rightarrow> state \<times> response" where
  "put_book e update_rejects uid bookId rq st =
     (case p_file rq of
        Some f \<Rightarrow>
          (case p_book rq of
             None \<Rightarrow> (st\<lparr>console := console st @ [UpdateParseError]\<rparr>,
                       respond 400 (Message InvalidBookJson))
           | Some parsedBook \<Rightarrow>
               (case store_image e f st of
                  (st1, None) \<Rightarrow> (st1\<lparr>console := console st1 @ [UpdateParseError]\<rparr>,
                                   respond 400 (Message InvalidBookJson))
                | (st1, Some url) \<Rightarrow>
                    update_with update_rejects uid bookId
                      (parsedBook\<lparr>set_imageUrl := Some url\<rparr>) st1))
      | None \<Rightarrow>
          update_with update_rejects uid bookId
            (case p_book rq of None \<Rightarrow> p_body rq | Some parsedBook \<Rightarrow> parsedBook) st)"

text \<open>
  \<^verbatim>\<open>router.delete("/:id")\<close>. The awaited store calls run inside one \<^verbatim>\<open>try\<close>;
  \<open>TxFailsAtFind\<close>: the lookup throws; \<open>TxFailsLater\<close>: a later call throws
  (\<^verbatim>\<open>abortTransaction\<close> on the refusal path, \<^verbatim>\<open>deleteOne\<close> or
  \<^verbatim>\<open>commitTransaction\<close> otherwise), after \<^verbatim>\<open>fs.unlink\<close> was issued.
  \<open>delete_try\<close> is the \<^verbatim>\<open>try\<close> block: the state it leaves and its response,
  \<open>None\<close> when a call threw. A transaction that does not commit leaves the collection
  as it was.
\<close>

datatype tx_fault = TxOk | TxFailsAtFind | TxFailsLater

definition delete_try ::
  "tx_fault \<Rightarrow> bool \<Rightarrow> user_id \<Rightarrow> book_id \<Rightarrow> state \<Rightarrow> state \<times> response option" where
  "delete_try fault fs_fails uid bookId st =
     (if fault = TxFailsAtFind then (st, None)
      else
        (case findOne_owned bookId uid (books st) of
           None \<Rightarrow>
             if fault = TxFailsLater then (st, None)
             else (st, Some (respond 403 (Message DeleteRefused)))
         | Some b \<Rightarrow>
             (case (case image_filename b of
                      None \<Rightarrow> st
                    | Some filename \<Rightarrow>
                        if filename \<noteq> [] then unlink fs_fails (image_path st filename) st
                        else st) of
                st1 \<Rightarrow>
                  if fault = TxFailsLater then (st1, None)
                  else (st1\<lparr>books := deleteOne bookId (books st1)\<rparr>,
                        Some (respond 200 (Message BookDeleted))))))"

text \<open>
  The \<^verbatim>\<open>catch\<close> block: \<^verbatim>\<open>abortTransaction\<close> is awaited first; when it rejects
  (\<open>abort_rejects\<close>) the block is left before anything is logged or sent, otherwise the
  error is logged and answered with 500.
\<close>

definition delete_catch :: "bool \<Rightarrow> state \<Rightarrow> state \<times> response option" where
  "delete_catch abort_rejects st =
     (if abort_rejects then (st, None)
      else (st\<lparr>console := console st @ [BookDeleteError]\<rparr>, Some (respond 500 ErrorJson)))"

text \<open>
  The whole route. \<^verbatim>\<open>mongoose.startSession()\<close> is awaited before the \<^verbatim>\<open>try\<close>:
  when it rejects (\<open>session_rejects\<close>) nothing is done and no response is sent. The
  response is \<open>None\<close> when none is sent.
\<close>

definition delete_route ::
  "bool \<Rightarrow> bool \<Rightarrow> tx_fault \<Rightarrow> bool \<Rightarrow> user_id \<Rightarrow> book_id \<Rightarrow> state
     \<Rightarrow> state \<times> response option" where
  "delete_route session_rejects abort_rejects fault fs_fails uid bookId st =
     (if session_rejects then (st, None)
      else
        (case delete_try fault fs_fails uid bookId st of
           (st1, Some r) \<Rightarrow> (st1, Some r)
         | (st1, None) \<Rightarrow> delete_catch abort_rejects st1))"

text \<open>
  The route for a session that starts and a \<^verbatim>\<open>catch\<close> block whose
  \<^verbatim>\<open>abortTransaction\<close> is answered: it always responds.
\<close>

definition delete_book ::
  "tx_fault \<Rightarrow> bool \<Rightarrow> user_id \<Rightarrow> book_id \<Rightarrow> state \<Rightarrow> state \<times> response" where
  "delete_book fault fs_fails uid bookId st =
     (case delete_try fault fs_fails uid bookId st of
        (st1, Some r) \<Rightarrow> (st1, r)
      | (st1, None) \<Rightarrow>
          (st1\<lparr>console := console st1 @ [BookDeleteError]\<rparr>, respond 500 ErrorJson))"

text \<open>
  \<^verbatim>\<open>router.post("/:id/rating")\<close>. \<open>rating\<close> is \<^verbatim>\<open>req.body.rating\<close>: a number,
  as the request schema of the route declares it, or \<^verbatim>\<open>undefined\<close> (\<open>None\<close>). The
  mean is the \<^verbatim>\<open>reduce\<close> of the route divided by the length.
\<close>

definition average :: "rating_entry list \<Rightarrow> rat" where
  "average rs = foldl (\<lambda>acc cur. acc + grade cur) 0 rs / of_nat (length rs)"

definition post_rating ::
  "bool \<Rightarrow> bool \<Rightarrow> user_id \<Rightarrow> book_id \<Rightarrow> rat option \<Rightarrow> state \<Rightarrow> state \<times> response" where
  "post_rating find_rejects save_rejects uid bookId rating st =
     (case rating of
        None \<Rightarrow> (st, respond 400 (Message RatingOutOfRange))
      | Some g \<Rightarrow>
          if g < 0 \<or> g > 5 then (st, respond 400 (Message RatingOutOfRange))
          else if find_rejects then (st, respond 400 ErrorJson)
          else
            (case findOne bookId (books st) of
               None \<Rightarrow> (st, respond 404 (Message BookNotFound))
             | Some b \<Rightarrow>
                 (case find (\<lambda>r. r_userId r = uid) (ratings b) of
                    Some existingRating \<Rightarrow> (st, respond 403 (Message AlreadyRated))
                  | None \<Rightarrow>
                      (case b\<lparr>ratings := ratings b @ [\<lparr>r_userId = uid, grade = g\<rparr>]\<rparr> of
                         b1 \<Rightarrow>
                           (case b1\<lparr>averageRating := average (ratings b1)\<rparr> of
                              b2 \<Rightarrow>
                                if save_rejects then (st, respond 400 ErrorJson)
                                else (st\<lparr>books := save b2 (books st)\<rparr>,
                                      respond 200 (BookJson b2)))))))"

text \<open>A protected route: \<open>auth\<close> runs first and answers 401 itself.\<close>

definition protected ::
  "nat \<Rightarrow> token option \<Rightarrow> (user_id \<Rightarrow> state \<Rightarrow> state \<times> response) \<Rightarrow> state
     \<Rightarrow> state \<times> response" where
  "protected clock authorization route st =
     (case auth clock authorization of
        Inl r \<Rightarrow> (st, r)
      | Inr uid \<Rightarrow> route uid st)"

section \<open>Notions of the specification\<close>

text \<open>
  The spec's derived field: the arithmetic mean of the grades, or 0 when there is no
  rating. This definition follows the spec's words; \<open>average\<close> above is the route's
  computation.
\<close>

definition spec_mean :: "rating_entry list \<Rightarrow> rat" where
  "spec_mean rs = (if rs = [] then 0 else sum_list (map grade rs) / of_nat (length rs))"

definition average_ok :: "book \<Rightarrow> bool" where
  "average_ok b = (averageRating b = spec_mean (ratings b))"

text \<open>
  An update request gets past the first half of \<^verbatim>\<open>router.put("/:id")\<close> and reaches
  \<^verbatim>\<open>Book.updateOne\<close>: it carries no file, or it carries a file together with a
  parseable \<^verbatim>\<open>book\<close> field and \<^verbatim>\<open>compressImage\<close> succeeds.
\<close>

definition passes_body_processing :: "update_request \<Rightarrow> bool" where
  "passes_body_processing rq =
     (case p_file rq of
        None \<Rightarrow> True
      | Some f \<Rightarrow> p_book rq \<noteq> None \<and> processable f)"

section \<open>Example data\<close>

definition web :: env where
  "web = \<lparr>now = ''1'', protocol = ''http'', host = ''h'', new_id = ''b1''\<rparr>"

definition alice_book :: book where
  "alice_book = \<lparr>b_id = ''b1'', userId = ''u1'', title = ''T'', author = ''A'', genre = ''G'',
     year = 1943, imageUrl = ''http://h/images/1-c'', averageRating = 0, ratings = []\<rparr>"

definition rated_book :: book where
  "rated_book = alice_book\<lparr>averageRating := 4, ratings := [\<lparr>r_userId = ''u2'', grade = 4\<rparr>]\<rparr>"

definition shelf :: state where
  "shelf = \<lparr>books = [alice_book], files = {''/app/images/1-c''}, console = [],
     cwd = ''/app'', dirname = ''/app/routes''\<rparr>"

definition rated_shelf :: state where
  "rated_shelf = \<lparr>books = [rated_book], files = {''/app/images/1-c''}, console = [],
     cwd = ''/app'', dirname = ''/app/routes''\<rparr>"

definition bob :: user where
  "bob = \<lparr>u_id = ''u2'', email = ''b@x'', password = ''h''\<rparr>"

section \<open>Facts about the collection\<close>

lemma findOne_Nil: "findOne i [] = None"
  by (simp add: findOne_def)

lemma findOne_Cons: "findOne i (b # bs) = (if b_id b = i then Some b else findOne i bs)"
  by (simp add: findOne_def)

lemma findOne_Some_id: "findOne i bs = Some b \<Longrightarrow> b_id b = i \<and> b \<in> set bs"
  by (induction bs) (auto simp: findOne_Nil findOne_Cons split: if_splits)


lemma findOne_save_same:
  "findOne i bs = Some b \<Longrightarrow> b_id b' = i \<Longrightarrow> findOne i (save b' bs) = Some b'"
  by (induction bs) (auto simp: findOne_Nil findOne_Cons)

lemma findOne_save_other:
  "j \<noteq> b_id b' \<Longrightarrow> findOne j (save b' bs) = findOne j bs"
  by (induction bs) (auto simp: findOne_Nil findOne_Cons)

lemma set_save: "set (save b' bs) \<subseteq> insert b' (set bs)"
  by (induction bs) auto

lemma set_deleteOne: "set (deleteOne i bs) \<subseteq> set bs"
  by (induction bs) auto



lemma save_ids: "map b_id (save b' bs) = map b_id bs"
  by (induction bs) auto

lemma apply_update_id: "b_id (apply_update d b) = b_id b"
  by (simp add: apply_update_def)

lemma updateOne_ids: "map b_id (fst (updateOne i u d bs)) = map b_id bs"
  by (induction bs) (auto simp: apply_update_id)

lemma deleteOne_distinct: "distinct (map b_id bs) \<Longrightarrow> distinct (map b_id (deleteOne i bs))"
  using set_deleteOne [of i] by (induction bs) auto

lemma insert_new_distinct:
  "insert_new b bs = Some bs' \<Longrightarrow> distinct (map b_id bs) \<Longrightarrow> distinct (map b_id bs')"
  by (auto simp: insert_new_def split: if_splits)

lemma findOne_owned_None:
  "findOne_owned i u bs = None \<longleftrightarrow> (\<forall>b\<in>set bs. b_id b = i \<longrightarrow> userId b \<noteq> u)"
  by (auto simp: findOne_owned_def find_None_iff)

lemma updateOne_no_match:
  "\<forall>b\<in>set bs. b_id b = i \<longrightarrow> userId b \<noteq> u \<Longrightarrow> updateOne i u d bs = (bs, 0)"
  by (induction bs) auto

lemma updateOne_unmodified:
  "snd (updateOne i u d bs) = 0 \<Longrightarrow> fst (updateOne i u d bs) = bs"
  by (induction bs) (auto split: if_splits)

lemma find_rated:
  "uid \<in> r_userId ` set rs \<Longrightarrow> \<exists>r. find (\<lambda>r. r_userId r = uid) rs = Some r"
  by (induction rs) auto

lemma find_unrated:
  "uid \<notin> r_userId ` set rs \<Longrightarrow> find (\<lambda>r. r_userId r = uid) rs = None"
  by (induction rs) auto

section \<open>The mean of the grades\<close>

lemma foldl_grades: "foldl (\<lambda>acc cur. acc + grade cur) a rs = a + sum_list (map grade rs)"
  by (induction rs arbitrary: a) (simp_all add: add.assoc)

lemma average_spec_mean: "rs \<noteq> [] \<Longrightarrow> average rs = spec_mean rs"
  by (simp add: average_def spec_mean_def foldl_grades)

lemma store_image_books: "books (fst (store_image e f st)) = books st"
  by (simp add: store_image_def compressImage_def)

lemma store_image_result: "snd (store_image e f st) = None \<longleftrightarrow> \<not> processable f"
  by (simp add: store_image_def compressImage_def)

text \<open>
  Creating a book and rating a book keep \<open>averageRating\<close> equal to the mean of the
  grades on every stored book; so does deleting one.
\<close>

lemma post_book_average_ok:
  assumes "\<forall>b\<in>set (books st). average_ok b"
  shows "\<forall>b\<in>set (books (fst (post_book e save_rejects uid rq st))). average_ok b"
proof (cases "c_file rq")
  case None
  with assms show ?thesis
    by (auto simp: post_book_def insert_new_def average_ok_def spec_mean_def
        split: option.splits)
next
  case (Some f)
  obtain st1 res where si: "store_image e f st = (st1, res)"
    by (cases "store_image e f st")
  have "books st1 = books st"
    using store_image_books [of e f st] si by simp
  with assms Some si show ?thesis
    by (auto simp: post_book_def insert_new_def average_ok_def spec_mean_def
        split: option.splits)
qed

lemma post_rating_average_ok:
  assumes "\<forall>b\<in>set (books st). average_ok b"
  shows "\<forall>b\<in>set (books (fst (post_rating find_rejects save_rejects uid bookId rating st))).
           average_ok b"
proof -
  have new: "average_ok (b\<lparr>ratings := rs @ [r], averageRating := average (rs @ [r])\<rparr>)"
    for b rs r
    by (simp add: average_ok_def average_spec_mean)
  show ?thesis
    using assms set_save new
    by (fastforce simp: post_rating_def split: option.splits if_splits)
qed

lemma delete_book_average_ok:
  assumes "\<forall>b\<in>set (books st). average_ok b"
  shows "\<forall>b\<in>set (books (fst (delete_book fault fs_fails uid bookId st))). average_ok b"
  using assms set_deleteOne [of bookId "books st"]
  by (auto simp: delete_book_def delete_try_def unlink_def split: option.splits if_splits)

text \<open>
  The example collection is what the create route makes of an empty one: the stored
  file is the one the book's \<open>imageUrl\<close> names.
\<close>

lemma post_book_example:
  "post_book web False ''u1''
     \<lparr>c_book = Some \<lparr>d_title = ''T'', d_author = ''A'', d_genre = ''G'', d_year = 1943\<rparr>,
      c_file = Some \<lparr>originalname = ''c'', processable = True\<rparr>\<rparr>
     \<lparr>books = [], files = {}, console = [], cwd = ''/app'', dirname = ''/app/routes''\<rparr>
   = (shelf, respond 201 (Message BookCreated))"
  by (simp add: post_book_def store_image_def compressImage_def path_join_def
      path_normalize_def insert_new_def web_def shelf_def alice_book_def)


section \<open>Best rated books\<close>

lemma topRated_length: "length (topRated n bs) = min n (length bs)"
  by (simp add: topRated_def min.commute)

lemma topRated_sorted:
  "sorted_wrt (\<lambda>a b. averageRating a \<ge> averageRating b) (topRated n bs)"
proof -
  have "sorted (map (\<lambda>b. - averageRating b) (sort_key (\<lambda>b. - averageRating b) bs))"
    by (rule sorted_sort_key)
  then have "sorted_wrt (\<lambda>a b. averageRating a \<ge> averageRating b)
               (sort_key (\<lambda>b. - averageRating b) bs)"
    by (simp add: sorted_wrt_map)
  then show ?thesis
    unfolding topRated_def by (rule sorted_wrt_take)
qed

lemma topRated_subset: "set (topRated n bs) \<subseteq> set bs"
proof -
  have "set (topRated n bs) \<subseteq> set (sort_key (\<lambda>b. - averageRating b) bs)"
    unfolding topRated_def by (rule set_take_subset)
  then show ?thesis by simp
qed

text \<open>
  Claim C6. Whatever the collection holds, the best-rating route answers (when the store
  answers) with at most 3 books, taken from the collection, in descending order of
  \<open>averageRating\<close>.
\<close>

theorem bestrating_sorted_top3:
  "get_bestrating False st = respond 200 (BooksJson (topRated 3 (books st))) \<and>
   length (topRated 3 (books st)) \<le> 3 \<and>
   length (topRated 3 (books st)) = min 3 (length (books st)) \<and>
   set (topRated 3 (books st)) \<subseteq> set (books st) \<and>
   sorted_wrt (\<lambda>a b. averageRating a \<ge> averageRating b) (topRated 3 (books st))"
  by (simp add: get_bestrating_def topRated_length topRated_sorted topRated_subset)

theorem bestrating_sorted_top3_witness:
  "get_bestrating False
     \<lparr>books = [alice_book, rated_book, alice_book\<lparr>averageRating := 2\<rparr>,
               alice_book\<lparr>averageRating := 5\<rparr>],
      files = {}, console = [], cwd = ''/app'', dirname = ''/app/routes''\<rparr>
   = respond 200 (BooksJson
       [alice_book\<lparr>averageRating := 5\<rparr>, rated_book, alice_book\<lparr>averageRating := 2\<rparr>])"
  using bestrating_sorted_top3
    [of "\<lparr>books = [alice_book, rated_book, alice_book\<lparr>averageRating := 2\<rparr>,
                    alice_book\<lparr>averageRating := 5\<rparr>],
           files = {}, console = [], cwd = ''/app'', dirname = ''/app/routes''\<rparr>"]
  by (simp add: topRated_def alice_book_def rated_book_def)

section \<open>Rating a book\<close>

text \<open>
  Claim C9. A rating request that passed \<open>auth\<close> and whose body has no
  \<^verbatim>\<open>rating\<close> field is answered with status 400; the answer is the same for every
  collection and whether or not the store would answer, so no book is looked up.
\<close>

theorem missing_rating_rejected:
  assumes "auth clock authorization = Inr uid"
  shows "protected clock authorization
           (\<lambda>u. post_rating find_rejects save_rejects u bookId None) st
         = (st, respond 400 (Message RatingOutOfRange))"
  using assms by (simp add: protected_def post_rating_def)

theorem missing_rating_rejected_witness:
  "auth 10 (Some (jwt_sign ''u2'' SECRET (24 * 3600) 0)) = Inr ''u2'' \<and>
   protected 10 (Some (jwt_sign ''u2'' SECRET (24 * 3600) 0))
     (\<lambda>u. post_rating False False u ''b1'' None) shelf
   = (shelf, respond 400 (Message RatingOutOfRange))"
proof -
  have h: "auth 10 (Some (jwt_sign ''u2'' SECRET (24 * 3600) 0)) = Inr ''u2''"
    by (simp add: auth_def jwt_verify_def jwt_sign_def)
  show ?thesis
    using h missing_rating_rejected [OF h, of False False "''b1''" shelf] by simp
qed

text \<open>
  Claim C7. A grade below 0 or above 5 is refused with status 400, a
  \<open>ValidationError\<close>; a grade in the range for a book that is absent is refused, when
  the store answers the lookup, with status 404, a \<open>NotFoundError\<close>. In both cases the
  state, and so every book, is unchanged.
\<close>

theorem rating_validation:
  "(g < 0 \<or> 5 < g \<longrightarrow>
      post_rating find_rejects save_rejects uid bookId (Some g) st
        = (st, respond 400 (Message RatingOutOfRange))) \<and>
   (0 \<le> g \<and> g \<le> 5 \<and> findOne bookId (books st) = None \<longrightarrow>
      post_rating False save_rejects uid bookId (Some g) st
        = (st, respond 404 (Message BookNotFound))) \<and>
   spec_error_kind (respond 400 (Message RatingOutOfRange)) = Some ValidationError \<and>
   spec_error_kind (respond 404 (Message BookNotFound)) = Some NotFoundError"
  by (auto simp add: post_rating_def spec_error_kind_def respond_def)

theorem rating_validation_witness:
  "post_rating False False ''u2'' ''b1'' (Some 6) shelf
     = (shelf, respond 400 (Message RatingOutOfRange)) \<and>
   post_rating False False ''u2'' ''b1'' (Some (- 1)) shelf
     = (shelf, respond 400 (Message RatingOutOfRange)) \<and>
   findOne ''b9'' (books shelf) = None \<and>
   post_rating False False ''u2'' ''b9'' (Some 3) shelf
     = (shelf, respond 404 (Message BookNotFound))"
proof -
  have absent: "findOne ''b9'' (books shelf) = None"
    by (simp add: findOne_def shelf_def alice_book_def)
  show ?thesis
    using absent
      rating_validation [of 6 False False "''u2''" "''b1''" shelf]
      rating_validation [of "- 1" False False "''u2''" "''b1''" shelf]
      rating_validation [of 3 False False "''u2''" "''b9''" shelf]
    by simp
qed

text \<open>
  Claim C4. For a stored book and a requester with no entry in its ratings, a grade in
  [0,5] is accepted when the store answers: the entry is appended, \<open>averageRating\<close>
  becomes the mean of all grades, the book is saved (a lookup then finds the updated book)
  and the response is 200 with the updated book.
\<close>

theorem rating_accepted:
  assumes "findOne bookId (books st) = Some b" "uid \<notin> r_userId ` set (ratings b)"
    "0 \<le> g" "g \<le> 5"
  shows "\<exists>b'. post_rating False False uid bookId (Some g) st
               = (st\<lparr>books := save b' (books st)\<rparr>, respond 200 (BookJson b')) \<and>
          b' = b\<lparr>ratings := ratings b @ [\<lparr>r_userId = uid, grade = g\<rparr>],
                  averageRating := spec_mean (ratings b @ [\<lparr>r_userId = uid, grade = g\<rparr>])\<rparr> \<and>
          findOne bookId (save b' (books st)) = Some b'"
proof -
  let ?rs = "ratings b @ [\<lparr>r_userId = uid, grade = g\<rparr>]"
  let ?b' = "b\<lparr>ratings := ?rs, averageRating := spec_mean ?rs\<rparr>"
  have avg: "average ?rs = spec_mean ?rs"
    by (rule average_spec_mean) simp
  have id: "b_id ?b' = bookId"
    using findOne_Some_id [OF assms(1)] by simp
  have "post_rating False False uid bookId (Some g) st
          = (st\<lparr>books := save ?b' (books st)\<rparr>, respond 200 (BookJson ?b'))"
    using assms by (simp add: post_rating_def find_unrated avg)
  moreover have "findOne bookId (save ?b' (books st)) = Some ?b'"
    using assms(1) id by (rule findOne_save_same)
  ultimately show ?thesis by blast
qed

theorem rating_accepted_witness:
  "findOne ''b1'' (books rated_shelf) = Some rated_book \<and>
   ''u3'' \<notin> r_userId ` set (ratings rated_book) \<and>
   post_rating False False ''u3'' ''b1'' (Some 5) rated_shelf
     = (rated_shelf\<lparr>books :=
          [rated_book\<lparr>ratings := [\<lparr>r_userId = ''u2'', grade = 4\<rparr>, \<lparr>r_userId = ''u3'', grade = 5\<rparr>],
                      averageRating := 9 / 2\<rparr>]\<rparr>,
        respond 200 (BookJson
          (rated_book\<lparr>ratings := [\<lparr>r_userId = ''u2'', grade = 4\<rparr>, \<lparr>r_userId = ''u3'', grade = 5\<rparr>],
                      averageRating := 9 / 2\<rparr>)))"
proof -
  have 1: "findOne ''b1'' (books rated_shelf) = Some rated_book"
    by (simp add: rated_shelf_def rated_book_def alice_book_def findOne_def)
  have 2: "''u3'' \<notin> r_userId ` set (ratings rated_book)"
    by (simp add: rated_book_def)
  have 3: "(0::rat) \<le> 5" "(5::rat) \<le> 5" by simp_all
  show ?thesis using 1 2 rating_accepted [OF 1 2 3]
    by (auto simp add: spec_mean_def rated_shelf_def rated_book_def alice_book_def)
qed

text \<open>
  Claim C3, amended. When the requester already has an entry in the ratings of a stored
  book, a further rating request leaves the state unchanged, so the ratings keep their
  length. With a grade in [0,5] (and a store that answers the lookup) the response is 403,
  a \<open>ForbiddenError\<close>; with a missing or out-of-range grade the response is 400,
  because the grade is checked before the book is read.
\<close>

theorem second_rating_refused:
  assumes "findOne bookId (books st) = Some b" "uid \<in> r_userId ` set (ratings b)"
  shows "post_rating find_rejects save_rejects uid bookId rating st =
     (st, case rating of
            None \<Rightarrow> respond 400 (Message RatingOutOfRange)
          | Some g \<Rightarrow>
              if g < 0 \<or> 5 < g then respond 400 (Message RatingOutOfRange)
              else if find_rejects then respond 400 ErrorJson
              else respond 403 (Message AlreadyRated)) \<and>
     spec_error_kind (respond 403 (Message AlreadyRated)) = Some ForbiddenError"
proof -
  obtain r where "find (\<lambda>r. r_userId r = uid) (ratings b) = Some r"
    using find_rated [OF assms(2)] by blast
  with assms(1) show ?thesis
    by (simp add: post_rating_def spec_error_kind_def respond_def split: option.split)
qed

theorem second_rating_refused_witness:
  "findOne ''b1'' (books rated_shelf) = Some rated_book \<and>
   ''u2'' \<in> r_userId ` set (ratings rated_book) \<and>
   post_rating False False ''u2'' ''b1'' (Some 3) rated_shelf
     = (rated_shelf, respond 403 (Message AlreadyRated))"
proof -
  have 1: "findOne ''b1'' (books rated_shelf) = Some rated_book"
    by (simp add: rated_shelf_def rated_book_def alice_book_def findOne_def)
  have 2: "''u2'' \<in> r_userId ` set (ratings rated_book)"
    by (simp add: rated_book_def)
  show ?thesis
    using 1 2 second_rating_refused [OF 1 2, of False False "Some 3"] by simp
qed

text \<open>
  The claim as written fails: the user \<open>u2\<close> has rated the book, and a second request
  with the grade 7 is answered with 400, a \<open>ValidationError\<close>, not with 403.
\<close>

theorem second_rating_out_of_range:
  "findOne ''b1'' (books rated_shelf) = Some rated_book \<and>
   ''u2'' \<in> r_userId ` set (ratings rated_book) \<and>
   post_rating False False ''u2'' ''b1'' (Some 7) rated_shelf
     = (rated_shelf, respond 400 (Message RatingOutOfRange)) \<and>
   spec_error_kind (respond 400 (Message RatingOutOfRange)) \<noteq> Some ForbiddenError"
  by (simp add: post_rating_def rated_shelf_def rated_book_def alice_book_def findOne_def
      spec_error_kind_def respond_def)

section \<open>Updating and deleting a book\<close>

lemma update_with_no_match:
  assumes "\<forall>b\<in>set (books st). b_id b = bookId \<longrightarrow> userId b \<noteq> uid"
  shows "update_with r uid bookId d st =
           (st, if r then respond 400 ErrorJson else respond 403 (Message UpdateRefused))"
  using updateOne_no_match [OF assms] by (simp add: update_with_def)

lemma put_book_no_match:
  assumes "\<forall>b\<in>set (books st). b_id b = bookId \<longrightarrow> userId b \<noteq> uid"
  shows "books (fst (put_book e r uid bookId rq st)) = books st \<and>
         snd (put_book e r uid bookId rq st) =
           (if \<not> passes_body_processing rq then respond 400 (Message InvalidBookJson)
            else if r then respond 400 ErrorJson
            else respond 403 (Message UpdateRefused))"
proof (cases "p_file rq")
  case None
  then show ?thesis
    using update_with_no_match [OF assms]
    by (simp add: put_book_def passes_body_processing_def)
next
  case (Some f)
  note upl = this
  show ?thesis
  proof (cases "p_book rq")
    case None
    with upl show ?thesis
      by (simp add: put_book_def passes_body_processing_def)
  next
    case (Some parsedBook)
    note parsed = this
    obtain st1 res where si: "store_image e f st = (st1, res)"
      by (cases "store_image e f st")
    have bs: "books st1 = books st"
      using store_image_books [of e f st] si by simp
    have rs: "res = None \<longleftrightarrow> \<not> processable f"
      using store_image_result [of e f st] si by simp
    have no: "\<forall>b\<in>set (books st1). b_id b = bookId \<longrightarrow> userId b \<noteq> uid"
      using assms bs by simp
    show ?thesis
    proof (cases res)
      case None
      with rs si parsed upl bs show ?thesis
        by (simp add: put_book_def passes_body_processing_def)
    next
      case (Some url)
      with rs si parsed upl bs update_with_no_match [OF no] show ?thesis
        by (simp add: put_book_def passes_body_processing_def)
    qed
  qed
qed

lemma delete_book_no_match:
  assumes "\<forall>b\<in>set (books st). b_id b = bookId \<longrightarrow> userId b \<noteq> uid"
  shows "books (fst (delete_book fault fs_fails uid bookId st)) = books st \<and>
         snd (delete_book fault fs_fails uid bookId st) =
           (if fault = TxOk then respond 403 (Message DeleteRefused)
            else respond 500 ErrorJson)"
proof -
  have "findOne_owned bookId uid (books st) = None"
    using assms by (simp add: findOne_owned_None)
  then show ?thesis
    by (cases fault) (simp_all add: delete_book_def delete_try_def)
qed

text \<open>An update that is answered with 403 has changed nothing.\<close>

lemma update_with_refused_unchanged:
  assumes "snd (update_with r uid bookId d st) = respond 403 (Message UpdateRefused)"
  shows "fst (update_with r uid bookId d st) = st"
proof -
  have "snd (updateOne bookId uid d (books st)) = 0"
    using assms
    by (auto simp: update_with_def respond_def split: if_splits prod.splits)
  then have "fst (updateOne bookId uid d (books st)) = books st"
    by (rule updateOne_unmodified)
  then show ?thesis
    by (auto simp: update_with_def split: if_splits prod.splits)
qed

text \<open>
  Identifiers stay unique in the collection under the four routes that write to it.
\<close>

lemma store_image_state_books: "store_image e f st = (st1, res) \<Longrightarrow> books st1 = books st"
  using store_image_books [of e f st] by simp

lemma post_book_distinct:
  assumes "distinct (map b_id (books st))"
  shows "distinct (map b_id (books (fst (post_book e save_rejects uid rq st))))"
proof (cases "c_file rq")
  case None
  with assms show ?thesis
    by (auto simp: post_book_def insert_new_def split: option.splits)
next
  case (Some f)
  obtain st1 res where si: "store_image e f st = (st1, res)"
    by (cases "store_image e f st")
  with assms Some store_image_state_books [OF si] show ?thesis
    by (auto simp: post_book_def insert_new_def split: option.splits)
qed

lemma update_with_distinct:
  "distinct (map b_id (books st)) \<Longrightarrow>
   distinct (map b_id (books (fst (update_with r uid bookId d st))))"
  using updateOne_ids [of bookId uid d "books st"]
  by (auto simp: update_with_def split: prod.splits)

lemma put_book_distinct:
  assumes "distinct (map b_id (books st))"
  shows "distinct (map b_id (books (fst (put_book e r uid bookId rq st))))"
proof (cases "p_file rq")
  case None
  with assms update_with_distinct show ?thesis
    by (simp add: put_book_def)
next
  case (Some f)
  obtain st1 res where si: "store_image e f st = (st1, res)"
    by (cases "store_image e f st")
  have "distinct (map b_id (books st1))"
    using assms store_image_state_books [OF si] by simp
  with assms Some si update_with_distinct show ?thesis
    by (auto simp: put_book_def split: option.splits)
qed

lemma delete_book_distinct:
  "distinct (map b_id (books st)) \<Longrightarrow>
   distinct (map b_id (books (fst (delete_book fault fs_fails uid bookId st))))"
  using deleteOne_distinct [of "books st" bookId]
  by (auto simp: delete_book_def delete_try_def unlink_def split: option.splits)

lemma post_rating_distinct:
  "distinct (map b_id (books st)) \<Longrightarrow>
   distinct (map b_id (books (fst (post_rating find_rejects save_rejects uid bookId rating st))))"
  by (auto simp: post_rating_def save_ids split: option.splits)

text \<open>
  Claim C2, amended. When no stored book has both the requested id and the requester as
  owner (the book is absent, or it is someone else's), an update and a delete leave every
  stored book as it was. The delete is answered with 403, a \<open>ForbiddenError\<close>, unless
  the store transaction fails (500). The update is answered with 403 when the request
  gets past the processing of its body and image and the store answers; a request with an
  image file whose \<^verbatim>\<open>book\<close> field does not parse, or whose image cannot be
  processed, is answered with 400 before ownership is looked at.
\<close>

theorem refusal_when_not_owner:
  assumes "\<forall>b\<in>set (books st). b_id b = bookId \<longrightarrow> userId b \<noteq> uid"
  shows "books (fst (put_book e update_rejects uid bookId rq st)) = books st \<and>
         books (fst (delete_book fault fs_fails uid bookId st)) = books st \<and>
         snd (put_book e update_rejects uid bookId rq st) =
           (if \<not> passes_body_processing rq then respond 400 (Message InvalidBookJson)
            else if update_rejects then respond 400 ErrorJson
            else respond 403 (Message UpdateRefused)) \<and>
         snd (delete_book fault fs_fails uid bookId st) =
           (if fault = TxOk then respond 403 (Message DeleteRefused)
            else respond 500 ErrorJson) \<and>
         spec_error_kind (respond 403 (Message UpdateRefused)) = Some ForbiddenError \<and>
         spec_error_kind (respond 403 (Message DeleteRefused)) = Some ForbiddenError"
  using put_book_no_match [OF assms] delete_book_no_match [OF assms]
  by (simp add: spec_error_kind_def respond_def)

theorem refusal_when_not_owner_witness:
  "findOne_owned ''b1'' ''u2'' (books shelf) = None \<and>
   books (fst (put_book web False ''u2'' ''b1''
     \<lparr>p_book = Some (no_update\<lparr>set_title := Some ''N''\<rparr>), p_body = no_update,
      p_file = None\<rparr> shelf)) = books shelf \<and>
   snd (put_book web False ''u2'' ''b1''
     \<lparr>p_book = Some (no_update\<lparr>set_title := Some ''N''\<rparr>), p_body = no_update,
      p_file = None\<rparr> shelf) = respond 403 (Message UpdateRefused) \<and>
   books (fst (delete_book TxOk False ''u2'' ''b1'' shelf)) = books shelf \<and>
   snd (delete_book TxOk False ''u2'' ''b1'' shelf) = respond 403 (Message DeleteRefused)"
proof -
  have 1: "\<forall>b\<in>set (books shelf). b_id b = ''b1'' \<longrightarrow> userId b \<noteq> ''u2''"
    by (simp add: shelf_def alice_book_def)
  have 2: "passes_body_processing
     \<lparr>p_book = Some (no_update\<lparr>set_title := Some ''N''\<rparr>), p_body = no_update, p_file = None\<rparr>"
    by (simp add: passes_body_processing_def)
  have 3: "findOne_owned ''b1'' ''u2'' (books shelf) = None"
    using 1 by (simp only: findOne_owned_None)
  show ?thesis
    using 2 3 refusal_when_not_owner [OF 1, of web False
        "\<lparr>p_book = Some (no_update\<lparr>set_title := Some ''N''\<rparr>), p_body = no_update,
          p_file = None\<rparr>" TxOk False]
    by simp
qed

text \<open>
  The claim as written fails: \<open>u2\<close> does not own the book \<open>b1\<close>, and an update
  request of \<open>u2\<close> with an image file and an unparseable \<^verbatim>\<open>book\<close> field is
  answered with 400, a \<open>ValidationError\<close>, not with 403.
\<close>

theorem update_validation_precedes_ownership:
  "findOne_owned ''b1'' ''u2'' (books shelf) = None \<and>
   put_book web False ''u2'' ''b1''
     \<lparr>p_book = None, p_body = no_update,
      p_file = Some \<lparr>originalname = ''c'', processable = True\<rparr>\<rparr> shelf
   = (shelf\<lparr>console := [UpdateParseError]\<rparr>, respond 400 (Message InvalidBookJson)) \<and>
   spec_error_kind (respond 400 (Message InvalidBookJson)) \<noteq> Some ForbiddenError"
  by (simp add: put_book_def shelf_def alice_book_def findOne_owned_def
      spec_error_kind_def respond_def)

text \<open>
  Claim C10. An update request with no image file whose \<^verbatim>\<open>book\<close> field does not
  parse is not refused for that: the route takes the request body as the update document
  and goes on to \<^verbatim>\<open>Book.updateOne\<close> with it. When the store answers, the
  collection is the result of that update and the status is 200 or 403.
\<close>

theorem update_falls_back_to_body:
  assumes "p_file rq = None" "p_book rq = None"
  shows "put_book e update_rejects uid bookId rq st
           = update_with update_rejects uid bookId (p_body rq) st \<and>
         body (snd (put_book e update_rejects uid bookId rq st)) \<noteq> Message InvalidBookJson \<and>
         books (fst (put_book e False uid bookId rq st))
           = fst (updateOne bookId uid (p_body rq) (books st)) \<and>
         status (snd (put_book e False uid bookId rq st)) \<in> {200, 403}"
  using assms
  by (simp add: put_book_def update_with_def respond_def split: prod.split)

theorem update_falls_back_to_body_witness:
  "put_book web False ''u1'' ''b1''
     \<lparr>p_book = None, p_body = no_update\<lparr>set_title := Some ''N''\<rparr>, p_file = None\<rparr> shelf
   = (shelf\<lparr>books := [alice_book\<lparr>title := ''N''\<rparr>]\<rparr>, respond 200 (Message BookUpdated))"
proof -
  have 1: "p_file \<lparr>p_book = None, p_body = no_update\<lparr>set_title := Some ''N''\<rparr>,
                   p_file = None\<rparr> = None"
    by simp
  have 2: "p_book \<lparr>p_book = None, p_body = no_update\<lparr>set_title := Some ''N''\<rparr>,
                   p_file = None\<rparr> = None"
    by simp
  show ?thesis
    using update_falls_back_to_body [OF 1 2, of web False "''u1''" "''b1''" shelf]
    by (simp add: update_with_def shelf_def alice_book_def no_update_def apply_update_def)
qed


text \<open>
  The path is normalised before the file is removed: dot segments in the file name of a
  stored \<open>imageUrl\<close> are resolved.
\<close>

lemma image_path_dot_segments_example:
  "image_filename (alice_book\<lparr>imageUrl := ''http://h/images/sub/../1-c''\<rparr>) = Some ''sub/../1-c'' \<and>
   image_path shelf ''sub/../1-c'' = ''/app/images/1-c''"
  by (simp add: image_filename_def image_path_def path_join_def path_normalize_def shelf_def)

lemma delete_dot_segments_example:
  "delete_route False False TxOk False ''u1'' ''b1''
     (shelf\<lparr>books := [alice_book\<lparr>imageUrl := ''http://h/images/sub/../1-c''\<rparr>]\<rparr>)
   = (shelf\<lparr>books := [], files := {}\<rparr>, Some (respond 200 (Message BookDeleted)))"
  by (simp add: delete_route_def delete_try_def unlink_def image_path_def path_join_def
      path_normalize_def image_filename_def findOne_owned_def shelf_def alice_book_def)



lemma delete_try_throws:
  "fault \<noteq> TxOk \<Longrightarrow> snd (delete_try fault fs_fails uid bookId st) = None"
  by (cases fault) (simp_all add: delete_try_def split: option.split)

text \<open>
  When the session does not start, or the \<^verbatim>\<open>abortTransaction\<close> of the
  \<^verbatim>\<open>catch\<close> block rejects after a failure, the route sends no response.
\<close>

lemma delete_route_unanswered:
  "snd (delete_route True abort_rejects fault fs_fails uid bookId st) = None"
  "fault \<noteq> TxOk \<Longrightarrow> snd (delete_route False True fault fs_fails uid bookId st) = None"
  using delete_try_throws [of fault fs_fails uid bookId st]
  by (cases "delete_try fault fs_fails uid bookId st";
      auto simp add: delete_route_def delete_catch_def split: option.split)+

text \<open>
  With a session that starts and an answered \<^verbatim>\<open>abortTransaction\<close> in the
  \<^verbatim>\<open>catch\<close> block, the route is \<open>delete_book\<close>.
\<close>

lemma delete_route_answered:
  "delete_route False False fault fs_fails uid bookId st =
     (fst (delete_book fault fs_fails uid bookId st),
      Some (snd (delete_book fault fs_fails uid bookId st)))"
  by (simp add: delete_route_def delete_book_def delete_catch_def
      split: prod.split option.split)



section \<open>Logging in\<close>

text \<open>
  Claim C5, amended. When the chain of promises does not reject: a login with an email
  that no user has is answered with status 401 and the message "User not found!"; a login
  whose password does not match the stored hash is answered with status 401 and the
  message "Incorrect password!" (both are \<open>UnauthorizedError\<close> in the spec's
  taxonomy); a login that matches is answered with status 200, the user's id and a token
  that carries this id, is signed with the secret and expires 24 hours after it was
  issued.
\<close>

theorem login_outcomes:
  "(em \<notin> email ` set us \<longrightarrow>
      login compare False clock us em pw = Some (respond 401 (Message UserNotFound))) \<and>
   (\<forall>u. findOne_user em us = Some u \<and> \<not> compare pw (password u) \<longrightarrow>
      login compare False clock us em pw = Some (respond 401 (Message IncorrectPassword))) \<and>
   (\<forall>u. findOne_user em us = Some u \<and> compare pw (password u) \<longrightarrow>
      (\<exists>tok. login compare False clock us em pw = Some (respond 200 (LoginJson (u_id u) tok)) \<and>
         t_userId tok = u_id u \<and> t_secret tok = SECRET \<and> t_iat tok = clock \<and>
         t_exp tok = t_iat tok + 24 * 60 * 60)) \<and>
   spec_error_kind (respond 401 (Message UserNotFound)) = Some UnauthorizedError \<and>
   spec_error_kind (respond 401 (Message IncorrectPassword)) = Some UnauthorizedError"
proof -
  have "em \<notin> email ` set us \<Longrightarrow> findOne_user em us = None"
    by (auto simp: findOne_user_def find_None_iff)
  then show ?thesis
    by (auto simp: login_def jwt_sign_def spec_error_kind_def respond_def)
qed

theorem login_outcomes_witness:
  "login (\<lambda>pw h. pw = h) False 0 [bob] ''a@x'' ''h'' = Some (respond 401 (Message UserNotFound)) \<and>
   login (\<lambda>pw h. pw = h) False 0 [bob] ''b@x'' ''g'' = Some (respond 401 (Message IncorrectPassword)) \<and>
   login (\<lambda>pw h. pw = h) False 0 [bob] ''b@x'' ''h'' =
     Some (respond 200 (LoginJson ''u2''
       \<lparr>t_userId = ''u2'', t_secret = SECRET, t_iat = 0, t_exp = 86400\<rparr>))"
proof -
  have 1: "''a@x'' \<notin> email ` set [bob]" by (simp add: bob_def)
  have 2: "findOne_user ''b@x'' [bob] = Some bob" by (simp add: findOne_user_def bob_def)
  have 3: "\<not> (\<lambda>pw h. pw = h) ''g'' (password bob)" by (simp add: bob_def)
  have 4: "(\<lambda>pw h. pw = h) ''h'' (password bob)" by (simp add: bob_def)
  from login_outcomes [of "''a@x''" "[bob]" "\<lambda>pw h. pw = h" 0 "''h''"] 1
  have a: "login (\<lambda>pw h. pw = h) False 0 [bob] ''a@x'' ''h''
             = Some (respond 401 (Message UserNotFound))"
    by blast
  from login_outcomes [of "''b@x''" "[bob]" "\<lambda>pw h. pw = h" 0 "''g''"] 2 3
  have b: "login (\<lambda>pw h. pw = h) False 0 [bob] ''b@x'' ''g''
             = Some (respond 401 (Message IncorrectPassword))"
    by blast
  from login_outcomes [of "''b@x''" "[bob]" "\<lambda>pw h. pw = h" 0 "''h''"] 2 4
  obtain tok where "login (\<lambda>pw h. pw = h) False 0 [bob] ''b@x'' ''h''
             = Some (respond 200 (LoginJson (u_id bob) tok))"
     "t_userId tok = u_id bob" "t_secret tok = SECRET" "t_iat tok = 0"
     "t_exp tok = t_iat tok + 24 * 60 * 60"
    by blast
  then have c: "login (\<lambda>pw h. pw = h) False 0 [bob] ''b@x'' ''h'' =
     Some (respond 200 (LoginJson ''u2''
       \<lparr>t_userId = ''u2'', t_secret = SECRET, t_iat = 0, t_exp = 86400\<rparr>))"
    by (cases tok) (simp add: bob_def)
  from a b c show ?thesis by blast
qed

text \<open>
  The claim as written fails: no user has the email \<open>a@x\<close>, and the login is answered
  with status 401, which is not the 404 of a \<open>NotFoundError\<close>.
\<close>

theorem login_unknown_email_is_401:
  "''a@x'' \<notin> email ` set [bob] \<and>
   login (\<lambda>pw h. pw = h) False 0 [bob] ''a@x'' ''h'' = Some (respond 401 (Message UserNotFound)) \<and>
   spec_error_kind (respond 401 (Message UserNotFound)) \<noteq> Some NotFoundError"
  by (simp add: login_def findOne_user_def bob_def spec_error_kind_def respond_def)

section \<open>The derived field under an update\<close>

text \<open>
  Claim C1. \<open>averageRating\<close> is meant to equal the mean of the grades after every
  create, rate and update. The create and the rate route keep it so
  (\<open>post_book_average_ok\<close>, \<open>post_rating_average_ok\<close>). The update route passes the
  client's document to \<^verbatim>\<open>Book.updateOne\<close> whole: the owner of a book without
  ratings sends \<^verbatim>\<open>{"averageRating": 5}\<close>, the update is accepted with status 200,
  and the stored book has \<open>averageRating\<close> 5 while the mean of its grades is 0.
\<close>

theorem update_overwrites_averageRating:
  "put_book web False ''u1'' ''b1''
     \<lparr>p_book = Some (no_update\<lparr>set_averageRating := Some 5\<rparr>), p_body = no_update,
      p_file = None\<rparr> shelf
   = (shelf\<lparr>books := [alice_book\<lparr>averageRating := 5\<rparr>]\<rparr>, respond 200 (Message BookUpdated))
   \<and> average_ok alice_book
   \<and> \<not> average_ok (alice_book\<lparr>averageRating := 5\<rparr>)"
  by (simp add: put_book_def update_with_def shelf_def alice_book_def no_update_def
      apply_update_def average_ok_def spec_mean_def)

end
